theory Spec2Isabelle
  imports Complex_Main "HOL-Library.AList"
begin

section \<open>The NeuralSync AI communication bus (neuralsync-community/bus/ai_bus.py)\<close>

text \<open>
  A shallow embedding of \<^verbatim>\<open>ConnectionManager\<close> and \<^verbatim>\<open>AIBus\<close>.
  The bus is single-threaded and cooperative, so every method is a function from the
  state before to the state after. Clock readings (\<^verbatim>\<open>time.time()\<close>) are an
  argument \<open>now\<close> of type \<open>real\<close>, one reading per handled frame. The Redis
  mirror is absent (\<^verbatim>\<open>redis_client is None\<close>) and the Prometheus metrics are
  not modelled: no behaviour of the bus reads them.
\<close>

subsection \<open>Python values, JSON encoding\<close>

datatype MessageType =
  AGENT_REGISTER | AGENT_DEREGISTER | DIRECT_MESSAGE | BROADCAST | PING
  | PONG | ERROR | ACK | SYSTEM

text \<open>\<^verbatim>\<open>MessageType(value)\<close>: the member with that value; \<open>None\<close> is the ValueError.\<close>

definition MessageType_of :: "string \<Rightarrow> MessageType option" where
  "MessageType_of v =
     (if v = ''agent_register'' then Some AGENT_REGISTER
      else if v = ''agent_deregister'' then Some AGENT_DEREGISTER
      else if v = ''direct_message'' then Some DIRECT_MESSAGE
      else if v = ''broadcast'' then Some BROADCAST
      else if v = ''ping'' then Some PING
      else if v = ''pong'' then Some PONG
      else if v = ''error'' then Some ERROR
      else if v = ''ack'' then Some ACK
      else if v = ''system'' then Some SYSTEM
      else None)"

text \<open>
  The values that travel through the bus: what \<^verbatim>\<open>json.loads\<close> produces, and
  what \<^verbatim>\<open>dataclasses.asdict\<close> hands to \<^verbatim>\<open>json.dumps\<close>. \<open>PEnum\<close> is a
  member of the plain \<^verbatim>\<open>Enum\<close> class \<^verbatim>\<open>MessageType\<close>, which \<open>asdict\<close>
  leaves in place.
\<close>

datatype pyval =
  PNone
  | PBool bool
  | PInt int
  | PFloat real
  | PStr string
  | PList "pyval list"
  | PDict "(string \<times> pyval) list"
  | PEnum MessageType

text \<open>Python truthiness, as used by \<^verbatim>\<open>not x\<close>, \<^verbatim>\<open>all([...])\<close> and \<^verbatim>\<open>x or d\<close>.\<close>

fun truthy :: "pyval \<Rightarrow> bool" where
  "truthy PNone = False"
| "truthy (PBool b) = b"
| "truthy (PInt n) = (n \<noteq> 0)"
| "truthy (PFloat r) = (r \<noteq> 0)"
| "truthy (PStr s) = (s \<noteq> [])"
| "truthy (PList xs) = (xs \<noteq> [])"
| "truthy (PDict kvs) = (kvs \<noteq> [])"
| "truthy (PEnum t) = True"

datatype py_error = TypeError | ConnectionClosed | TimeoutError | AttributeError

text \<open>
  What the default \<^verbatim>\<open>json.JSONEncoder\<close> accepts: None, booleans, numbers, strings,
  lists and string-keyed dicts of such values. Any other object, an \<^verbatim>\<open>Enum\<close> member
  that is not also a str or an int among them, raises TypeError.
\<close>

fun json_encodable :: "pyval \<Rightarrow> bool" where
  "json_encodable PNone = True"
| "json_encodable (PBool b) = True"
| "json_encodable (PInt n) = True"
| "json_encodable (PFloat r) = True"
| "json_encodable (PStr s) = True"
| "json_encodable (PList xs) = (\<forall>x \<in> set xs. json_encodable x)"
| "json_encodable (PDict kvs) = (\<forall>v \<in> set (map snd kvs). json_encodable v)"
| "json_encodable (PEnum t) = False"

text \<open>
  \<^verbatim>\<open>json.dumps\<close>. The frame on the wire is represented by the value it encodes
  (the text is a function of that value).
\<close>

definition json_dumps :: "pyval \<Rightarrow> py_error + pyval" where
  "json_dumps v = (if json_encodable v then Inr v else Inl TypeError)"

text \<open>\<^verbatim>\<open>str(n)\<close> for a non-negative integer, as an f-string formats it.\<close>

function str_nat :: "nat \<Rightarrow> string" where
  "str_nat n =
     (if n < 10 then [char_of (48 + n)]
      else str_nat (n div 10) @ [char_of (48 + n mod 10)])"
  by pat_completeness auto
termination
  by (relation "measure (\<lambda>n. n)") auto

subsection \<open>Data model\<close>

text \<open>
  A websocket object: \<open>ws_ident\<close> stands for the object's identity (Python compares
  websockets by identity), the other two fields are \<^verbatim>\<open>remote_address\<close>.
\<close>

datatype websocket = WebSocket (ws_ident: nat) (remote_ip: string) (remote_port: nat)

text \<open>\<^verbatim>\<open>f"{ip}:{port}:{time.time()}"\<close>, kept as its three components.\<close>

type_synonym connection_id = "string \<times> nat \<times> real"

record BusMessage =
  msg_type :: MessageType
  from_agent :: string
  to_agent :: "string option"
  content :: pyval
  timestamp :: real
  message_id :: "string option"
  correlation_id :: pyval
  metadata :: "(string \<times> pyval) list"

record AgentInfo =
  name :: string
  agent_websocket :: websocket
  connected_at :: real
  last_ping :: real
  agent_capabilities :: pyval
  agent_metadata :: pyval
  message_count :: nat

text \<open>
  The module-level configuration, read once from the environment:
  \<^verbatim>\<open>API_TOKEN\<close>, \<^verbatim>\<open>ENABLE_RATE_LIMITING\<close>, \<^verbatim>\<open>MAX_MESSAGES_PER_MINUTE\<close>
  (default 60) and \<^verbatim>\<open>MAX_CONNECTIONS_PER_IP\<close> (default 10).
\<close>

record config =
  API_TOKEN :: string
  ENABLE_RATE_LIMITING :: bool
  MAX_MESSAGES_PER_MINUTE :: int
  MAX_CONNECTIONS_PER_IP :: int

definition default_config :: config where
  "default_config =
     \<lparr>API_TOKEN = [], ENABLE_RATE_LIMITING = True,
      MAX_MESSAGES_PER_MINUTE = 60, MAX_CONNECTIONS_PER_IP = 10\<rparr>"

text \<open>
  What the bus does to the outside, in order: a frame handed to a channel
  (\<^verbatim>\<open>websocket.send\<close> returned), a send that raised inside \<^verbatim>\<open>send_message\<close> and
  was logged and swallowed there (with the websocket and message of the call, and the
  exception), and \<^verbatim>\<open>websocket.close(code, reason)\<close>.
\<close>

datatype event =
  Sent websocket pyval
  | SendFailed websocket BusMessage py_error
  | Closed websocket nat string

text \<open>
  \<^verbatim>\<open>ConnectionManager\<close>. \<open>agents\<close> is an association list in insertion order,
  because the bus iterates over the dict; the other dicts are only looked up.
\<close>

record bus_state =
  connections :: "connection_id \<rightharpoonup> websocket"
  agents :: "(string \<times> AgentInfo) list"
  ip_connections :: "string \<rightharpoonup> connection_id set"
  message_rates :: "string \<rightharpoonup> real list"
  trace :: "event list"

definition initial_state :: bus_state where
  "initial_state =
     \<lparr>connections = Map.empty, agents = [], ip_connections = Map.empty,
      message_rates = Map.empty, trace = []\<rparr>"

text \<open>The frames a websocket has received from the bus, in order.\<close>

fun received :: "websocket \<Rightarrow> event list \<Rightarrow> pyval list" where
  "received ws [] = []"
| "received ws (Sent w v # es) = (if w = ws then v # received ws es else received ws es)"
| "received ws (e # es) = received ws es"

subsection \<open>ConnectionManager\<close>

definition register_connection ::
  "config \<Rightarrow> websocket \<Rightarrow> connection_id \<Rightarrow> bus_state \<Rightarrow> bool \<times> bus_state" where
  "register_connection cfg websocket connection_id st =
     (let client_ip = remote_ip websocket;
          ipc = (if ip_connections st client_ip = None
                 then (ip_connections st)(client_ip \<mapsto> {})
                 else ip_connections st);
          ids = (case ipc client_ip of None \<Rightarrow> {} | Some s \<Rightarrow> s)
      in if int (card ids) \<ge> MAX_CONNECTIONS_PER_IP cfg
         then (False, st\<lparr>ip_connections := ipc\<rparr>)
         else (True, st\<lparr>connections := (connections st)(connection_id \<mapsto> websocket),
                        ip_connections := ipc(client_ip \<mapsto> insert connection_id ids)\<rparr>))"

definition deregister_agent :: "string \<Rightarrow> bus_state \<Rightarrow> bool \<times> bus_state" where
  "deregister_agent agent_name st =
     (if map_of (agents st) agent_name = None then (False, st)
      else (True, st\<lparr>agents := AList.delete agent_name (agents st)\<rparr>))"

definition register_agent ::
  "connection_id \<Rightarrow> string \<Rightarrow> pyval \<Rightarrow> pyval \<Rightarrow> real \<Rightarrow> bus_state \<Rightarrow> bool \<times> bus_state" where
  "register_agent connection_id agent_name capabilities mdata now st =
     (case connections st connection_id of
        None \<Rightarrow> (False, st)
      | Some websocket \<Rightarrow>
          (let st1 = (if map_of (agents st) agent_name \<noteq> None
                      then snd (deregister_agent agent_name st) else st);
               agent_info = \<lparr>name = agent_name, agent_websocket = websocket,
                              connected_at = now, last_ping = now,
                              agent_capabilities =
                                (if truthy capabilities then capabilities else PList []),
                              agent_metadata = (if truthy mdata then mdata else PDict []),
                              message_count = 0\<rparr>
           in (True, st1\<lparr>agents := AList.update agent_name agent_info (agents st1)\<rparr>)))"

definition deregister_connection :: "connection_id \<Rightarrow> websocket \<Rightarrow> bus_state \<Rightarrow> bus_state" where
  "deregister_connection connection_id websocket st =
     (let agents_to_remove =
            map fst (filter (\<lambda>(agent_name, agent_info). agent_websocket agent_info = websocket)
                            (agents st));
          st1 = fold (\<lambda>agent_name s. snd (deregister_agent agent_name s)) agents_to_remove st;
          st2 = st1\<lparr>connections := (connections st1)(connection_id := None)\<rparr>;
          client_ip = remote_ip websocket
      in case ip_connections st2 client_ip of
           None \<Rightarrow> st2
         | Some ids \<Rightarrow>
             (let ids' = ids - {connection_id}
              in if ids' = {}
                 then st2\<lparr>ip_connections := (ip_connections st2)(client_ip := None)\<rparr>
                 else st2\<lparr>ip_connections := (ip_connections st2)(client_ip \<mapsto> ids')\<rparr>))"

definition get_agent_websocket :: "string \<Rightarrow> bus_state \<Rightarrow> websocket option" where
  "get_agent_websocket agent_name st = map_option agent_websocket (map_of (agents st) agent_name)"

definition get_all_agent_names :: "bus_state \<Rightarrow> string list" where
  "get_all_agent_names st = map fst (agents st)"

text \<open>The window of an agent; a name never seen has none.\<close>

definition rate_window :: "bus_state \<Rightarrow> string \<Rightarrow> real list" where
  "rate_window st agent_name =
     (case message_rates st agent_name of None \<Rightarrow> [] | Some w \<Rightarrow> w)"

definition is_rate_limited :: "config \<Rightarrow> string \<Rightarrow> real \<Rightarrow> bus_state \<Rightarrow> bool \<times> bus_state" where
  "is_rate_limited cfg agent_name now st =
     (if \<not> ENABLE_RATE_LIMITING cfg then (False, st)
      else
        (let minute_ago = now - 60;
             window = filter (\<lambda>msg_time. msg_time > minute_ago) (rate_window st agent_name)
         in if int (length window) \<ge> MAX_MESSAGES_PER_MINUTE cfg
            then (True, st\<lparr>message_rates := (message_rates st)(agent_name \<mapsto> window)\<rparr>)
            else (False, st\<lparr>message_rates :=
                               (message_rates st)(agent_name \<mapsto> window @ [now])\<rparr>)))"

definition update_agent_ping :: "string \<Rightarrow> real \<Rightarrow> bus_state \<Rightarrow> bus_state" where
  "update_agent_ping agent_name now st =
     (case map_of (agents st) agent_name of
        None \<Rightarrow> st
      | Some agent_info \<Rightarrow>
          st\<lparr>agents := AList.update agent_name (agent_info\<lparr>last_ping := now\<rparr>) (agents st)\<rparr>)"

text \<open>
  A run of rate-limit checks for one agent at the given clock readings, in order: the
  verdict of each check (\<open>True\<close> is "limited") and the state after the last.
\<close>

fun rate_checks :: "config \<Rightarrow> string \<Rightarrow> real list \<Rightarrow> bus_state \<Rightarrow> bool list \<times> bus_state" where
  "rate_checks cfg agent_name [] st = ([], st)"
| "rate_checks cfg agent_name (now # ts) st =
     (let (limited, st1) = is_rate_limited cfg agent_name now st;
          (rest, st2) = rate_checks cfg agent_name ts st1
      in (limited # rest, st2))"

subsection \<open>Inbound frames\<close>

text \<open>
  The fields of a request object that the handlers read with \<^verbatim>\<open>message_data.get\<close>.
  Names and the type tag are strings, as the signatures declare them (\<^verbatim>\<open>agent_name: str\<close>);
  \<open>None\<close> is an absent key or a JSON null, both of which \<^verbatim>\<open>get\<close> turns into
  \<^verbatim>\<open>None\<close>. \<open>md_content\<close> and \<open>md_correlation_id\<close> are arbitrary JSON values,
  \<open>PNone\<close> when absent.
\<close>

record message_data =
  md_type :: "string option"
  md_agent_name :: "string option"
  md_capabilities :: "pyval option"
  md_metadata :: "pyval option"
  md_from_agent :: "string option"
  md_to_agent :: "string option"
  md_content :: pyval
  md_correlation_id :: pyval

text \<open>
  A received text frame, after \<^verbatim>\<open>json.loads\<close>: not JSON at all, a JSON value that
  is not an object (it has no \<^verbatim>\<open>get\<close>), or an object.
\<close>

datatype frame = Malformed | NonObject | Object message_data

text \<open>Truthiness of an optional string: \<^verbatim>\<open>None\<close> and \<^verbatim>\<open>""\<close> are false.\<close>

definition present :: "string option \<Rightarrow> bool" where
  "present x = (case x of None \<Rightarrow> False | Some s \<Rightarrow> s \<noteq> [])"

definition opt_str :: "string option \<Rightarrow> pyval" where
  "opt_str x = (case x of None \<Rightarrow> PNone | Some s \<Rightarrow> PStr s)"

text \<open>\<^verbatim>\<open>str(member)\<close> of an \<^verbatim>\<open>Enum\<close> member, as an f-string formats it.\<close>

fun MessageType_str :: "MessageType \<Rightarrow> string" where
  "MessageType_str AGENT_REGISTER = ''MessageType.AGENT_REGISTER''"
| "MessageType_str AGENT_DEREGISTER = ''MessageType.AGENT_DEREGISTER''"
| "MessageType_str DIRECT_MESSAGE = ''MessageType.DIRECT_MESSAGE''"
| "MessageType_str BROADCAST = ''MessageType.BROADCAST''"
| "MessageType_str PING = ''MessageType.PING''"
| "MessageType_str PONG = ''MessageType.PONG''"
| "MessageType_str ERROR = ''MessageType.ERROR''"
| "MessageType_str ACK = ''MessageType.ACK''"
| "MessageType_str SYSTEM = ''MessageType.SYSTEM''"

subsection \<open>AIBus: sending\<close>

text \<open>
  The constructor of \<^verbatim>\<open>BusMessage\<close> with \<^verbatim>\<open>__post_init__\<close>: the timestamp is the
  clock reading, the metadata the empty dict, \<^verbatim>\<open>message_id\<close> stays \<^verbatim>\<open>None\<close>.
\<close>

definition mk_BusMessage ::
  "MessageType \<Rightarrow> string \<Rightarrow> string option \<Rightarrow> pyval \<Rightarrow> pyval \<Rightarrow> real \<Rightarrow> BusMessage" where
  "mk_BusMessage t frm to c corr now =
     \<lparr>msg_type = t, from_agent = frm, to_agent = to, content = c, timestamp = now,
      message_id = None, correlation_id = corr, metadata = []\<rparr>"

text \<open>
  \<^verbatim>\<open>dataclasses.asdict(message)\<close>: one entry per field, in declaration order. The
  \<open>type\<close> field is copied as it is, an \<^verbatim>\<open>Enum\<close> member.
\<close>

definition asdict :: "BusMessage \<Rightarrow> pyval" where
  "asdict m =
     PDict [(''type'', PEnum (msg_type m)),
            (''from_agent'', PStr (from_agent m)),
            (''to_agent'', opt_str (to_agent m)),
            (''content'', content m),
            (''timestamp'', PFloat (timestamp m)),
            (''message_id'', opt_str (message_id m)),
            (''correlation_id'', correlation_id m),
            (''metadata'', PDict (metadata m))]"

text \<open>
  \<^verbatim>\<open>websocket.send\<close>: raises ConnectionClosed on a channel whose peer is gone
  (\<open>dead\<close>), delivers the frame otherwise.
\<close>

definition ws_send ::
  "(websocket \<Rightarrow> bool) \<Rightarrow> websocket \<Rightarrow> pyval \<Rightarrow> bus_state \<Rightarrow> py_error + bus_state" where
  "ws_send dead websocket wire st =
     (if dead websocket then Inl ConnectionClosed
      else Inr (st\<lparr>trace := trace st @ [Sent websocket wire]\<rparr>))"

text \<open>
  \<^verbatim>\<open>send_message\<close>: both the encoding and the send are inside the \<^verbatim>\<open>try\<close>; either
  exception is logged and swallowed, so the function always returns normally.
\<close>

definition send_message ::
  "(websocket \<Rightarrow> bool) \<Rightarrow> websocket \<Rightarrow> BusMessage \<Rightarrow> bus_state \<Rightarrow> bus_state" where
  "send_message dead websocket message st =
     (case json_dumps (asdict message) of
        Inl e \<Rightarrow> st\<lparr>trace := trace st @ [SendFailed websocket message e]\<rparr>
      | Inr message_json \<Rightarrow>
          (case ws_send dead websocket message_json st of
             Inl e \<Rightarrow> st\<lparr>trace := trace st @ [SendFailed websocket message e]\<rparr>
           | Inr st' \<Rightarrow> st'))"

definition send_error ::
  "(websocket \<Rightarrow> bool) \<Rightarrow> websocket \<Rightarrow> string \<Rightarrow> real \<Rightarrow> bus_state \<Rightarrow> bus_state" where
  "send_error dead websocket error_message now st =
     send_message dead websocket
       (mk_BusMessage ERROR ''bus'' None (PDict [(''error'', PStr error_message)]) PNone now) st"

definition broadcast_system_message ::
  "(websocket \<Rightarrow> bool) \<Rightarrow> pyval \<Rightarrow> string \<Rightarrow> real \<Rightarrow> bus_state \<Rightarrow> bus_state" where
  "broadcast_system_message dead c exclude_agent now st =
     (let message = mk_BusMessage SYSTEM ''bus'' None c PNone now
      in fold (\<lambda>(agent_name, agent_info) s.
                 if agent_name \<noteq> exclude_agent
                 then send_message dead (agent_websocket agent_info) message s else s)
              (agents st) st)"

subsection \<open>AIBus: the handlers\<close>

definition handle_agent_register ::
  "(websocket \<Rightarrow> bool) \<Rightarrow> websocket \<Rightarrow> message_data \<Rightarrow> connection_id \<Rightarrow> real \<Rightarrow> bus_state
     \<Rightarrow> bool \<times> bus_state" where
  "handle_agent_register dead websocket message_data connection_id now st =
     (let capabilities = (case md_capabilities message_data of None \<Rightarrow> PList [] | Some c \<Rightarrow> c);
          mdata = (case md_metadata message_data of None \<Rightarrow> PDict [] | Some m \<Rightarrow> m)
      in if \<not> present (md_agent_name message_data)
         then (False, send_error dead websocket ''Agent name is required for registration'' now st)
         else
           (let agent_name = the (md_agent_name message_data);
                (success, st1) = register_agent connection_id agent_name capabilities mdata now st
            in if success
               then
                 (let response = mk_BusMessage ACK ''bus'' (Some agent_name)
                        (PDict [(''message'',
                                 PStr (''Agent '' @ agent_name @ '' registered successfully'')),
                                (''registered_agents'',
                                 PList (map PStr (get_all_agent_names st1)))])
                        PNone now;
                      st2 = send_message dead websocket response st1;
                      st3 = broadcast_system_message dead
                              (PDict [(''event'', PStr ''agent_joined''),
                                      (''agent_name'', PStr agent_name),
                                      (''capabilities'', capabilities)])
                              agent_name now st2
                  in (True, st3))
               else (False, send_error dead websocket ''Failed to register agent'' now st1)))"

definition handle_agent_deregister ::
  "(websocket \<Rightarrow> bool) \<Rightarrow> websocket \<Rightarrow> message_data \<Rightarrow> real \<Rightarrow> bus_state \<Rightarrow> bool \<times> bus_state" where
  "handle_agent_deregister dead websocket message_data now st =
     (if \<not> present (md_agent_name message_data)
      then (False, send_error dead websocket ''Agent name is required for deregistration'' now st)
      else
        (let agent_name = the (md_agent_name message_data);
             (success, st1) = deregister_agent agent_name st
         in if success
            then (True, broadcast_system_message dead
                          (PDict [(''event'', PStr ''agent_left''),
                                  (''agent_name'', PStr agent_name)])
                          agent_name now st1)
            else (False, st1)))"

definition handle_direct_message ::
  "config \<Rightarrow> (websocket \<Rightarrow> bool) \<Rightarrow> websocket \<Rightarrow> message_data \<Rightarrow> real \<Rightarrow> bus_state
     \<Rightarrow> bool \<times> bus_state" where
  "handle_direct_message cfg dead websocket message_data now st =
     (if \<not> (present (md_from_agent message_data) \<and> present (md_to_agent message_data)
             \<and> truthy (md_content message_data))
      then (False, send_error dead websocket
                     ''Direct message requires from_agent, to_agent, and content'' now st)
      else
        (let frm = the (md_from_agent message_data);
             to = the (md_to_agent message_data);
             (limited, st1) = is_rate_limited cfg frm now st
         in if limited
            then (False, send_error dead websocket ''Rate limit exceeded'' now st1)
            else
              (case get_agent_websocket to st1 of
                 None \<Rightarrow>
                   (False, send_error dead websocket (''Agent '' @ to @ '' not found'') now st1)
               | Some target_websocket \<Rightarrow>
                   (let message = mk_BusMessage DIRECT_MESSAGE frm (Some to)
                          (md_content message_data) (md_correlation_id message_data) now;
                        st2 = send_message dead target_websocket message st1;
                        confirmation = mk_BusMessage ACK ''bus'' (Some frm)
                          (PDict [(''message'', PStr (''Message delivered to '' @ to))])
                          (md_correlation_id message_data) now
                    in (True, send_message dead websocket confirmation st2)))))"

text \<open>
  The fan-out loop of \<^verbatim>\<open>handle_broadcast\<close>. The \<^verbatim>\<open>try\<close> around
  \<^verbatim>\<open>send_message\<close> has no exception to catch, since \<^verbatim>\<open>send_message\<close> returns
  normally on every input: the counter is incremented for every agent other than the sender.
\<close>

definition broadcast_fanout ::
  "(websocket \<Rightarrow> bool) \<Rightarrow> string \<Rightarrow> BusMessage \<Rightarrow> bus_state \<Rightarrow> nat \<times> bus_state" where
  "broadcast_fanout dead frm message st =
     fold (\<lambda>(agent_name, agent_info) (delivered_count, s).
             if agent_name \<noteq> frm
             then (delivered_count + 1, send_message dead (agent_websocket agent_info) message s)
             else (delivered_count, s))
          (agents st) (0, st)"

definition handle_broadcast ::
  "config \<Rightarrow> (websocket \<Rightarrow> bool) \<Rightarrow> websocket \<Rightarrow> message_data \<Rightarrow> real \<Rightarrow> bus_state
     \<Rightarrow> bool \<times> bus_state" where
  "handle_broadcast cfg dead websocket message_data now st =
     (if \<not> (present (md_from_agent message_data) \<and> truthy (md_content message_data))
      then (False, send_error dead websocket ''Broadcast requires from_agent and content'' now st)
      else
        (let frm = the (md_from_agent message_data);
             (limited, st1) = is_rate_limited cfg frm now st
         in if limited
            then (False, send_error dead websocket ''Rate limit exceeded'' now st1)
            else
              (let message = mk_BusMessage BROADCAST frm None (md_content message_data) PNone now;
                   (delivered_count, st2) = broadcast_fanout dead frm message st1;
                   confirmation = mk_BusMessage ACK ''bus'' (Some frm)
                     (PDict [(''message'',
                              PStr (''Broadcast delivered to '' @ str_nat delivered_count
                                    @ '' agents''))])
                     PNone now
               in (True, send_message dead websocket confirmation st2))))"

definition handle_ping ::
  "(websocket \<Rightarrow> bool) \<Rightarrow> websocket \<Rightarrow> message_data \<Rightarrow> real \<Rightarrow> bus_state \<Rightarrow> bool \<times> bus_state" where
  "handle_ping dead websocket message_data now st =
     (let agent_name = md_from_agent message_data;
          st1 = (if present agent_name then update_agent_ping (the agent_name) now st else st);
          pong = mk_BusMessage PONG ''bus'' agent_name
                   (PDict [(''timestamp'', PFloat now)]) PNone now
      in (True, send_message dead websocket pong st1))"

definition handle_message ::
  "config \<Rightarrow> (websocket \<Rightarrow> bool) \<Rightarrow> websocket \<Rightarrow> frame \<Rightarrow> connection_id \<Rightarrow> real \<Rightarrow> bus_state
     \<Rightarrow> bool \<times> bus_state" where
  "handle_message cfg dead websocket raw_message connection_id now st =
     (case raw_message of
        Malformed \<Rightarrow> (False, send_error dead websocket ''Invalid message format'' now st)
      | NonObject \<Rightarrow>
          (False, send_error dead websocket ''Internal error processing message'' now st)
      | Object message_data \<Rightarrow>
          (case MessageType_of (case md_type message_data of None \<Rightarrow> ''unknown'' | Some t \<Rightarrow> t) of
             None \<Rightarrow> (False, send_error dead websocket ''Invalid message format'' now st)
           | Some message_type \<Rightarrow>
               (if message_type = AGENT_REGISTER
                then handle_agent_register dead websocket message_data connection_id now st
                else if message_type = AGENT_DEREGISTER
                then handle_agent_deregister dead websocket message_data now st
                else if message_type = DIRECT_MESSAGE
                then handle_direct_message cfg dead websocket message_data now st
                else if message_type = BROADCAST
                then handle_broadcast cfg dead websocket message_data now st
                else if message_type = PING
                then handle_ping dead websocket message_data now st
                else (False, send_error dead websocket
                               (''Unknown message type: '' @ MessageType_str message_type)
                               now st))))"

subsection \<open>AIBus: one connection\<close>

text \<open>
  What the client does during the authentication wait: nothing for 30 seconds, the
  channel closes (\<^verbatim>\<open>recv\<close> raises ConnectionClosed), or a frame arrives, which is no
  JSON, a JSON value without \<^verbatim>\<open>get\<close>, or an object with its \<open>type\<close> and
  \<open>token\<close> entries.
\<close>

datatype auth_frame = AuthMalformed | AuthNonObject | AuthObject "string option" "string option"

datatype auth_input = AuthTimeout | AuthClosed | AuthFrame auth_frame

definition auth_reply :: "string \<Rightarrow> string \<Rightarrow> pyval" where
  "auth_reply t m = PDict [(''type'', PStr t), (''message'', PStr m)]"

text \<open>
  \<^verbatim>\<open>authenticate_connection\<close>. Its \<^verbatim>\<open>except\<close> clause catches the timeout and the
  decoding error only; the replies go through \<^verbatim>\<open>websocket.send\<close> directly, so a
  closed channel raises here.
\<close>

definition authenticate_connection ::
  "config \<Rightarrow> (websocket \<Rightarrow> bool) \<Rightarrow> websocket \<Rightarrow> auth_input \<Rightarrow> bus_state
     \<Rightarrow> py_error + (bool \<times> bus_state)" where
  "authenticate_connection cfg dead websocket auth st =
     (if API_TOKEN cfg = [] then Inr (True, st)
      else
        (case auth of
           AuthClosed \<Rightarrow> Inl ConnectionClosed
         | AuthTimeout \<Rightarrow>
             map_sum id (Pair False)
               (ws_send dead websocket
                  (auth_reply ''auth_error'' ''Authentication timeout or invalid format'') st)
         | AuthFrame AuthMalformed \<Rightarrow>
             map_sum id (Pair False)
               (ws_send dead websocket
                  (auth_reply ''auth_error'' ''Authentication timeout or invalid format'') st)
         | AuthFrame AuthNonObject \<Rightarrow> Inl AttributeError
         | AuthFrame (AuthObject ty token) \<Rightarrow>
             (if ty = Some ''auth'' \<and> token = Some (API_TOKEN cfg)
              then map_sum id (Pair True)
                     (ws_send dead websocket
                        (auth_reply ''auth_success'' ''Authentication successful'') st)
              else map_sum id (Pair False)
                     (ws_send dead websocket
                        (auth_reply ''auth_error'' ''Authentication failed'') st))))"

text \<open>
  The \<^verbatim>\<open>async for\<close> loop: each frame of the session with the clock reading at its
  arrival; the verdict of \<^verbatim>\<open>handle_message\<close> is only logged.
\<close>

definition receive_loop ::
  "config \<Rightarrow> (websocket \<Rightarrow> bool) \<Rightarrow> websocket \<Rightarrow> connection_id \<Rightarrow> (real \<times> frame) list
     \<Rightarrow> bus_state \<Rightarrow> bus_state" where
  "receive_loop cfg dead websocket connection_id frames st =
     fold (\<lambda>(now, message) s. snd (handle_message cfg dead websocket message connection_id now s))
          frames st"

datatype outcome = Returned | Raised py_error

definition close :: "websocket \<Rightarrow> nat \<Rightarrow> string \<Rightarrow> bus_state \<Rightarrow> bus_state" where
  "close websocket code reason st = st\<lparr>trace := trace st @ [Closed websocket code reason]\<rparr>"

text \<open>
  \<^verbatim>\<open>handle_connection\<close> for one session from accept to the end of the coroutine:
  \<open>frames\<close> are the frames received before the channel ends, by a normal close or by an
  error (both leave the loop into the \<^verbatim>\<open>finally\<close> clause).
\<close>

definition handle_connection ::
  "config \<Rightarrow> (websocket \<Rightarrow> bool) \<Rightarrow> websocket \<Rightarrow> real \<Rightarrow> auth_input \<Rightarrow> (real \<times> frame) list
     \<Rightarrow> bus_state \<Rightarrow> outcome \<times> bus_state" where
  "handle_connection cfg dead websocket now auth frames st =
     (let connection_id = (remote_ip websocket, remote_port websocket, now);
          (admitted, st1) = register_connection cfg websocket connection_id st
      in if \<not> admitted
         then (Returned, close websocket 1008 ''Connection limit exceeded'' st1)
         else if API_TOKEN cfg \<noteq> []
         then
           (case authenticate_connection cfg dead websocket auth st1 of
              Inl e \<Rightarrow> (Raised e, st1)
            | Inr (ok, st2) \<Rightarrow>
                if \<not> ok then (Returned, close websocket 1008 ''Authentication failed'' st2)
                else (Returned,
                      deregister_connection connection_id websocket
                        (receive_loop cfg dead websocket connection_id frames st2)))
         else (Returned,
               deregister_connection connection_id websocket
                 (receive_loop cfg dead websocket connection_id frames st1)))"

subsection \<open>Scenarios\<close>

text \<open>
  Concrete sessions and requests on which the handlers are run below: four clients with
  a connection each, the states in which two or four of them are admitted and registered
  through \<^verbatim>\<open>register_connection\<close> and \<^verbatim>\<open>register_agent\<close>, and single requests
  handled in these states.
\<close>

definition ws_alice :: websocket where "ws_alice = WebSocket 1 ''10.0.0.1'' 40001"
definition ws_bob :: websocket where "ws_bob = WebSocket 2 ''10.0.0.2'' 40002"
definition ws_carol :: websocket where "ws_carol = WebSocket 3 ''10.0.0.3'' 40003"
definition ws_dave :: websocket where "ws_dave = WebSocket 4 ''10.0.0.4'' 40004"

definition cid :: "websocket \<Rightarrow> connection_id" where
  "cid ws = (remote_ip ws, remote_port ws, 0)"

definition join :: "websocket \<Rightarrow> string \<Rightarrow> bus_state \<Rightarrow> bus_state" where
  "join ws agent st =
     snd (register_agent (cid ws) agent (PList []) (PDict []) 0
            (snd (register_connection default_config ws (cid ws) st)))"

definition two_agents :: bus_state where
  "two_agents = join ws_bob ''bob'' (join ws_alice ''alice'' initial_state)"

definition four_agents :: bus_state where
  "four_agents = join ws_dave ''dave'' (join ws_carol ''carol'' two_agents)"

text \<open>
  The trace of a loop that calls \<^verbatim>\<open>send_message\<close> with one message for each of the
  given registry entries, every call ending in the swallowed TypeError.
\<close>

definition failed_sends :: "BusMessage \<Rightarrow> (string \<times> AgentInfo) list \<Rightarrow> event list" where
  "failed_sends m xs = map (\<lambda>(n, i). SendFailed (agent_websocket i) m TypeError) xs"

definition empty_request :: message_data where
  "empty_request =
     \<lparr>md_type = None, md_agent_name = None, md_capabilities = None, md_metadata = None,
      md_from_agent = None, md_to_agent = None, md_content = PNone, md_correlation_id = PNone\<rparr>"

definition direct_request :: "string \<Rightarrow> string \<Rightarrow> message_data" where
  "direct_request frm to =
     empty_request\<lparr>md_type := Some ''direct_message'', md_from_agent := Some frm,
       md_to_agent := Some to, md_content := PDict [(''task'', PStr ''ping'')],
       md_correlation_id := PStr ''c-1''\<rparr>"

definition broadcast_request :: "string \<Rightarrow> message_data" where
  "broadcast_request frm =
     empty_request\<lparr>md_type := Some ''broadcast'', md_from_agent := Some frm,
       md_content := PStr ''hello''\<rparr>"

definition no_dead :: "websocket \<Rightarrow> bool" where
  "no_dead w = False"

definition run_direct :: "bool \<times> bus_state" where
  "run_direct =
     handle_message default_config no_dead ws_alice (Object (direct_request ''alice'' ''bob''))
       (cid ws_alice) 5 two_agents"

definition run_direct_unknown :: "bool \<times> bus_state" where
  "run_direct_unknown =
     handle_message default_config no_dead ws_alice (Object (direct_request ''alice'' ''zed''))
       (cid ws_alice) 5 two_agents"

definition run_malformed :: "bool \<times> bus_state" where
  "run_malformed =
     handle_message default_config no_dead ws_alice Malformed (cid ws_alice) 5 two_agents"

definition run_pong :: "bool \<times> bus_state" where
  "run_pong =
     handle_message default_config no_dead ws_alice
       (Object (empty_request\<lparr>md_type := Some ''pong'', md_from_agent := Some ''alice''\<rparr>))
       (cid ws_alice) 5 two_agents"

definition run_ping :: "bool \<times> bus_state" where
  "run_ping =
     handle_message default_config no_dead ws_alice
       (Object (empty_request\<lparr>md_type := Some ''ping'', md_from_agent := Some ''alice''\<rparr>))
       (cid ws_alice) 7 two_agents"

definition run_direct_dead :: "bool \<times> bus_state" where
  "run_direct_dead =
     handle_message default_config (\<lambda>w. w = ws_bob) ws_alice
       (Object (direct_request ''alice'' ''bob'')) (cid ws_alice) 5 two_agents"

definition run_broadcast :: "bool \<times> bus_state" where
  "run_broadcast =
     handle_message default_config (\<lambda>w. w = ws_carol) ws_alice
       (Object (broadcast_request ''alice'')) (cid ws_alice) 5 four_agents"

definition run_auth_failure :: "outcome \<times> bus_state" where
  "run_auth_failure =
     handle_connection (default_config\<lparr>API_TOKEN := ''secret''\<rparr>) no_dead ws_alice 0
       (AuthFrame (AuthObject (Some ''auth'') (Some ''guess''))) [] initial_state"

definition run_close :: bus_state where
  "run_close = deregister_connection (cid ws_alice) ws_alice two_agents"

definition run_deregister :: "bool \<times> bus_state" where
  "run_deregister =
     handle_message default_config no_dead ws_alice
       (Object (empty_request\<lparr>md_type := Some ''agent_deregister'',
                               md_agent_name := Some ''alice''\<rparr>))
       (cid ws_alice) 5 two_agents"

definition run_reregister :: "bool \<times> bus_state" where
  "run_reregister =
     handle_message default_config no_dead ws_alice
       (Object (empty_request\<lparr>md_type := Some ''agent_register'',
                               md_agent_name := Some ''alice''\<rparr>))
       (cid ws_alice) 9 two_agents"

text \<open>
  A configuration with a token and a cap of one connection per address, and two sessions
  from one address under it: the first fails authentication, the second has the right token.
\<close>

definition strict_config :: config where
  "strict_config = default_config\<lparr>API_TOKEN := ''secret'', MAX_CONNECTIONS_PER_IP := 1\<rparr>"

definition run_lockout :: "outcome \<times> bus_state" where
  "run_lockout =
     handle_connection strict_config no_dead (WebSocket 5 ''10.0.0.1'' 40005) 1
       (AuthFrame (AuthObject (Some ''auth'') (Some ''secret''))) []
       (snd (handle_connection strict_config no_dead ws_alice 0
               (AuthFrame (AuthObject (Some ''auth'') (Some ''guess''))) [] initial_state))"

text \<open>
  Sixty-two direct messages from alice to bob under the default configuration: one at each
  of the seconds 0 to 59, the 61st still at second 59, one more at second 120.
\<close>

definition alice_sends :: "real list \<Rightarrow> bus_state \<Rightarrow> bus_state" where
  "alice_sends ts st =
     fold (\<lambda>now s. snd (handle_message default_config no_dead ws_alice
                          (Object (direct_request ''alice'' ''bob'')) (cid ws_alice) now s))
          ts st"

definition run_sixty_first :: "bool \<times> bus_state" where
  "run_sixty_first =
     handle_message default_config no_dead ws_alice (Object (direct_request ''alice'' ''bob''))
       (cid ws_alice) 59 (alice_sends (map real [0..<60]) two_agents)"

definition run_after_window :: "bool \<times> bus_state" where
  "run_after_window =
     handle_message default_config no_dead ws_alice (Object (direct_request ''alice'' ''bob''))
       (cid ws_alice) 120 (snd run_sixty_first)"

subsection \<open>The registry invariant\<close>

text \<open>A Python dict holds each key once: the names of the registry are distinct.\<close>

definition names_distinct :: "bus_state \<Rightarrow> bool" where
  "names_distinct st = distinct (map fst (agents st))"

section \<open>Properties\<close>

subsection \<open>Sending\<close>

text \<open>
  The dict that \<^verbatim>\<open>send_message\<close> hands to \<^verbatim>\<open>json.dumps\<close> always holds the
  \<^verbatim>\<open>MessageType\<close> member under \<open>type\<close>, so the encoding raises for every message
  and the send is swallowed: no envelope built as a \<^verbatim>\<open>BusMessage\<close> reaches a channel.
\<close>

lemma json_dumps_asdict: "json_dumps (asdict m) = Inl TypeError"
  by (simp add: json_dumps_def asdict_def)

lemma send_message_fails:
  "send_message dead ws m st = st\<lparr>trace := trace st @ [SendFailed ws m TypeError]\<rparr>"
  by (simp add: send_message_def json_dumps_asdict)

subsection \<open>The rate limiter\<close>

lemma is_rate_limited_step:
  assumes "ENABLE_RATE_LIMITING cfg"
  shows "is_rate_limited cfg a now st =
     (let w = filter (\<lambda>t. now - 60 < t) (rate_window st a)
      in if int (length w) < MAX_MESSAGES_PER_MINUTE cfg
         then (False, st\<lparr>message_rates := (message_rates st)(a \<mapsto> w @ [now])\<rparr>)
         else (True, st\<lparr>message_rates := (message_rates st)(a \<mapsto> w)\<rparr>))"
  using assms by (auto simp: is_rate_limited_def Let_def)

lemma rate_window_upd [simp]:
  "rate_window (st\<lparr>message_rates := (message_rates st)(a \<mapsto> w)\<rparr>) b = (if b = a then w else rate_window st b)"
  by (simp add: rate_window_def)

lemma rate_checks_Cons:
  "rate_checks cfg a (t # ts) st =
     (fst (is_rate_limited cfg a t st) # fst (rate_checks cfg a ts (snd (is_rate_limited cfg a t st))),
      snd (rate_checks cfg a ts (snd (is_rate_limited cfg a t st))))"
  by (simp add: case_prod_beta)

lemma rate_checks_append:
  "rate_checks cfg a (ts @ us) st =
     (fst (rate_checks cfg a ts st) @ fst (rate_checks cfg a us (snd (rate_checks cfg a ts st))),
      snd (rate_checks cfg a us (snd (rate_checks cfg a ts st))))"
  by (induction ts arbitrary: st) (simp_all add: case_prod_beta)

lemma rate_checks_fill:
  assumes en: "ENABLE_RATE_LIMITING cfg"
  shows "\<lbrakk>\<forall>t \<in> set (rate_window st a) \<union> set ts. tf - 60 < t; \<forall>t \<in> set ts. t \<le> tf;
          int (length (rate_window st a) + length ts) \<le> MAX_MESSAGES_PER_MINUTE cfg\<rbrakk>
     \<Longrightarrow> fst (rate_checks cfg a ts st) = replicate (length ts) False
       \<and> rate_window (snd (rate_checks cfg a ts st)) a = rate_window st a @ ts"
proof (induction ts arbitrary: st)
  case Nil
  then show ?case by simp
next
  case (Cons t ts)
  let ?w = "filter (\<lambda>x. t - 60 < x) (rate_window st a)"
  have "t - 60 < x" if "x \<in> set (rate_window st a)" for x
  proof -
    have "tf - 60 < x" using Cons.prems(1) that by blast
    moreover have "t \<le> tf" using Cons.prems(2) by simp
    ultimately show ?thesis by linarith
  qed
  then have keep: "?w = rate_window st a"
    by (intro filter_True) blast
  have lt: "int (length ?w) < MAX_MESSAGES_PER_MINUTE cfg"
    using Cons.prems keep by simp
  let ?st1 = "st\<lparr>message_rates := (message_rates st)(a \<mapsto> rate_window st a @ [t])\<rparr>"
  have step: "is_rate_limited cfg a t st = (False, ?st1)"
    using lt keep by (simp add: is_rate_limited_step [OF en] Let_def)
  have "fst (rate_checks cfg a ts ?st1) = replicate (length ts) False
       \<and> rate_window (snd (rate_checks cfg a ts ?st1)) a = rate_window ?st1 a @ ts"
    using Cons.prems by (intro Cons.IH) auto
  then show ?case
    by (simp add: rate_checks_Cons step del: rate_checks.simps(2))
qed


lemma rate_checks_window_full:
  assumes en: "ENABLE_RATE_LIMITING cfg"
    and T: "MAX_MESSAGES_PER_MINUTE cfg = int T"
    and fresh: "message_rates st a = None"
    and len: "length ts = T"
    and win: "\<forall>t \<in> set ts. tf - 60 < t \<and> t \<le> tf"
  shows "fst (rate_checks cfg a ts st) = replicate T False"
    and "rate_window (snd (rate_checks cfg a ts st)) a = ts"
    and "is_rate_limited cfg a tf (snd (rate_checks cfg a ts st)) =
           (True, (snd (rate_checks cfg a ts st))
                    \<lparr>message_rates := (message_rates (snd (rate_checks cfg a ts st)))(a \<mapsto> ts)\<rparr>)"
proof -
  have empty: "rate_window st a = []"
    using fresh by (simp add: rate_window_def)
  have fill: "fst (rate_checks cfg a ts st) = replicate (length ts) False
       \<and> rate_window (snd (rate_checks cfg a ts st)) a = rate_window st a @ ts"
    using win len T empty by (intro rate_checks_fill [OF en, where tf = tf]) auto
  show 1: "fst (rate_checks cfg a ts st) = replicate T False"
    using fill len by simp
  show 2: "rate_window (snd (rate_checks cfg a ts st)) a = ts"
    using fill empty by simp
  have keep: "filter (\<lambda>t. tf - 60 < t) ts = ts"
    using win by (intro filter_True) blast
  show "is_rate_limited cfg a tf (snd (rate_checks cfg a ts st)) =
           (True, (snd (rate_checks cfg a ts st))
                    \<lparr>message_rates := (message_rates (snd (rate_checks cfg a ts st)))(a \<mapsto> ts)\<rparr>)"
    by (simp add: is_rate_limited_step [OF en] 2 keep len T)
qed

text \<open>
  The limiter by itself. With rate limiting enabled and threshold \<open>T\<close>, every check prunes the
  agent's window to the stamps newer than \<open>now - 60\<close>; if fewer than \<open>T\<close> remain,
  \<open>now\<close> is appended and the send is allowed, otherwise the send is refused and nothing
  is appended. Hence for an agent never seen before, \<open>T\<close> sends that all lie within the
  60 seconds before a further send at \<open>tf\<close> are allowed and the send at \<open>tf\<close> (the
  61st for \<open>T = 60\<close>) is refused, leaving the window at the \<open>T\<close> stamps; and a send at
  \<open>t'\<close>, once the window has rolled past (\<open>tf + 60 \<le> t'\<close>), is allowed again.
\<close>

theorem rate_limit_sliding_window:
  assumes en: "ENABLE_RATE_LIMITING cfg"
    and T: "MAX_MESSAGES_PER_MINUTE cfg = int T"
  shows "is_rate_limited cfg a now st =
           (let w = filter (\<lambda>t. now - 60 < t) (rate_window st a)
            in if length w < T
               then (False, st\<lparr>message_rates := (message_rates st)(a \<mapsto> w @ [now])\<rparr>)
               else (True, st\<lparr>message_rates := (message_rates st)(a \<mapsto> w)\<rparr>))
       \<and> (message_rates st a = None \<and> length ts = T \<and> (\<forall>t \<in> set ts. tf - 60 < t \<and> t \<le> tf)
            \<longrightarrow> fst (rate_checks cfg a (ts @ [tf]) st) = replicate T False @ [True]
              \<and> rate_window (snd (rate_checks cfg a (ts @ [tf]) st)) a = ts
              \<and> (0 < T \<and> tf + 60 \<le> t'
                   \<longrightarrow> fst (rate_checks cfg a (ts @ [tf, t']) st) = replicate T False @ [True, False]
                     \<and> rate_window (snd (rate_checks cfg a (ts @ [tf, t']) st)) a = [t']))"
proof (intro conjI impI)
  show "is_rate_limited cfg a now st =
           (let w = filter (\<lambda>t. now - 60 < t) (rate_window st a)
            in if length w < T
               then (False, st\<lparr>message_rates := (message_rates st)(a \<mapsto> w @ [now])\<rparr>)
               else (True, st\<lparr>message_rates := (message_rates st)(a \<mapsto> w)\<rparr>))"
    by (simp add: is_rate_limited_step [OF en] T Let_def)
next
  assume h: "message_rates st a = None \<and> length ts = T \<and> (\<forall>t \<in> set ts. tf - 60 < t \<and> t \<le> tf)"
  let ?s = "snd (rate_checks cfg a ts st)"
  note full = rate_checks_window_full [OF en T, of st a ts tf]
  have f1: "fst (rate_checks cfg a ts st) = replicate T False" using h by (intro full(1)) auto
  have f2: "rate_window ?s a = ts" using h by (intro full(2)) auto
  have f3: "is_rate_limited cfg a tf ?s = (True, ?s\<lparr>message_rates := (message_rates ?s)(a \<mapsto> ts)\<rparr>)"
    using h by (intro full(3)) auto
  show "fst (rate_checks cfg a (ts @ [tf]) st) = replicate T False @ [True]"
    by (simp add: rate_checks_append f1 f3 del: rate_checks.simps(2) add: rate_checks_Cons)
  show "rate_window (snd (rate_checks cfg a (ts @ [tf]) st)) a = ts"
    by (simp add: rate_checks_append f3 del: rate_checks.simps(2) add: rate_checks_Cons)
  assume g: "0 < T \<and> tf + 60 \<le> t'"
  let ?s1 = "?s\<lparr>message_rates := (message_rates ?s)(a \<mapsto> ts)\<rparr>"
  have drop: "filter (\<lambda>t. t' - 60 < t) ts = []"
  proof -
    have "\<not> t' - 60 < t" if "t \<in> set ts" for t
    proof -
      have "t \<le> tf" using h that by blast
      then show ?thesis using g by linarith
    qed
    then show ?thesis by (simp add: filter_empty_conv)
  qed
  have f4: "is_rate_limited cfg a t' ?s1 =
              (False, ?s1\<lparr>message_rates := (message_rates ?s1)(a \<mapsto> [t'])\<rparr>)"
    using g by (simp add: is_rate_limited_step [OF en] drop T)
  have split: "ts @ [tf, t'] = ts @ ([tf] @ [t'])" by simp
  show "fst (rate_checks cfg a (ts @ [tf, t']) st) = replicate T False @ [True, False]"
    by (simp add: rate_checks_append f1 f3 f4 del: rate_checks.simps(2) add: rate_checks_Cons)
  show "rate_window (snd (rate_checks cfg a (ts @ [tf, t']) st)) a = [t']"
    by (simp add: rate_checks_append f3 f4 del: rate_checks.simps(2) add: rate_checks_Cons)
qed

theorem rate_limit_sliding_window_witness:
  "ENABLE_RATE_LIMITING default_config
   \<and> MAX_MESSAGES_PER_MINUTE default_config = int 60
   \<and> message_rates initial_state ''alice'' = None
   \<and> length (replicate 60 (0::real)) = 60
   \<and> fst (rate_checks default_config ''alice'' (replicate 60 0 @ [0, 60]) initial_state)
       = replicate 60 False @ [True, False]
   \<and> rate_window (snd (rate_checks default_config ''alice'' (replicate 60 0 @ [0, 60])
                          initial_state)) ''alice'' = [60]"
proof -
  have a: "ENABLE_RATE_LIMITING default_config" by (simp add: default_config_def)
  have b: "MAX_MESSAGES_PER_MINUTE default_config = int 60" by (simp add: default_config_def)
  have c: "message_rates initial_state ''alice'' = None" by (simp add: initial_state_def)
  have d: "length (replicate 60 (0::real)) = 60" by simp
  have e: "\<forall>t \<in> set (replicate 60 (0::real)). 0 - 60 < t \<and> t \<le> 0" by simp
  show ?thesis
    using rate_limit_sliding_window [OF a b, of "''alice''" 0 initial_state "replicate 60 0" 0 60]
      a b c d e by simp
qed

subsection \<open>Handlers at concrete requests\<close>

lemmas scenario_defs = ws_alice_def ws_bob_def ws_carol_def ws_dave_def cid_def join_def
  two_agents_def four_agents_def initial_state_def default_config_def
  register_agent_def register_connection_def deregister_agent_def Let_def

lemma received_append: "received w (xs @ ys) = received w xs @ received w ys"
  by (induction w xs rule: received.induct) simp_all

lemma send_error_fails:
  "send_error dead ws txt now st =
     st\<lparr>trace := trace st @
       [SendFailed ws (mk_BusMessage ERROR ''bus'' None (PDict [(''error'', PStr txt)]) PNone now)
          TypeError]\<rparr>"
  by (simp add: send_error_def send_message_fails)

lemma received_failed_sends [simp]: "received w (failed_sends m xs) = []"
  by (induction xs) (auto simp: failed_sends_def)

lemma fold_system_sends:
  "fold (\<lambda>(agent_name, agent_info) s.
           if agent_name \<noteq> ex then send_message dead (agent_websocket agent_info) m s else s) xs st
   = st\<lparr>trace := trace st @ failed_sends m (filter (\<lambda>(n, i). n \<noteq> ex) xs)\<rparr>"
proof (induction xs arbitrary: st)
  case Nil
  then show ?case by (simp add: failed_sends_def)
next
  case (Cons x xs)
  obtain n i where x: "x = (n, i)" by (cases x)
  show ?case
    by (simp add: x Cons.IH send_message_fails failed_sends_def)
qed

lemma broadcast_system_message_fails:
  "broadcast_system_message dead c ex now st =
     st\<lparr>trace := trace st @
          failed_sends (mk_BusMessage SYSTEM ''bus'' None c PNone now)
            (filter (\<lambda>(n, i). n \<noteq> ex) (agents st))\<rparr>"
  by (simp add: broadcast_system_message_def fold_system_sends)

lemma fold_fanout:
  "fold (\<lambda>(agent_name, agent_info) (delivered_count, s).
           if agent_name \<noteq> frm
           then (delivered_count + 1, send_message dead (agent_websocket agent_info) m s)
           else (delivered_count, s)) xs (k, st)
   = (k + length (filter (\<lambda>(n, i). n \<noteq> frm) xs),
      st\<lparr>trace := trace st @ failed_sends m (filter (\<lambda>(n, i). n \<noteq> frm) xs)\<rparr>)"
proof (induction xs arbitrary: k st)
  case Nil
  then show ?case by (simp add: failed_sends_def)
next
  case (Cons x xs)
  obtain n i where x: "x = (n, i)" by (cases x)
  show ?case
    by (simp add: x Cons.IH send_message_fails failed_sends_def)
qed

lemma broadcast_fanout_counts_all:
  "broadcast_fanout dead frm m st =
     (length (filter (\<lambda>(n, i). n \<noteq> frm) (agents st)),
      st\<lparr>trace := trace st @ failed_sends m (filter (\<lambda>(n, i). n \<noteq> frm) (agents st))\<rparr>)"
  by (simp add: broadcast_fanout_def fold_fanout)

lemma trace_is_rate_limited [simp]:
  "trace (snd (is_rate_limited cfg a now st)) = trace st"
  by (simp add: is_rate_limited_def Let_def)

lemma agents_is_rate_limited [simp]:
  "agents (snd (is_rate_limited cfg a now st)) = agents st"
  by (simp add: is_rate_limited_def Let_def)

lemma trace_deregister_agent [simp]:
  "trace (snd (deregister_agent a st)) = trace st"
  by (simp add: deregister_agent_def)

lemma trace_register_agent [simp]:
  "trace (snd (register_agent c a caps md now st)) = trace st"
  by (simp add: register_agent_def Let_def split: option.splits)

lemma trace_update_agent_ping [simp]:
  "trace (update_agent_ping a now st) = trace st"
  by (simp add: update_agent_ping_def split: option.splits)

lemma received_handle_agent_register:
  "received w (trace (snd (handle_agent_register dead ws md c now st))) = received w (trace st)"
  by (simp add: handle_agent_register_def Let_def case_prod_beta send_error_fails
      send_message_fails broadcast_system_message_fails received_append)

lemma received_handle_agent_deregister:
  "received w (trace (snd (handle_agent_deregister dead ws md now st))) = received w (trace st)"
  by (simp add: handle_agent_deregister_def Let_def case_prod_beta send_error_fails
      broadcast_system_message_fails received_append)

lemma received_handle_direct_message:
  "received w (trace (snd (handle_direct_message cfg dead ws md now st))) = received w (trace st)"
  by (simp add: handle_direct_message_def Let_def case_prod_beta send_error_fails
      send_message_fails received_append split: option.splits)

lemma received_handle_broadcast:
  "received w (trace (snd (handle_broadcast cfg dead ws md now st))) = received w (trace st)"
  by (simp add: handle_broadcast_def Let_def case_prod_beta send_error_fails
      send_message_fails broadcast_fanout_counts_all received_append)

lemma received_handle_ping:
  "received w (trace (snd (handle_ping dead ws md now st))) = received w (trace st)"
  by (simp add: handle_ping_def Let_def send_message_fails received_append)

lemma received_handle_message:
  "received w (trace (snd (handle_message cfg dead ws raw c now st))) = received w (trace st)"
  by (simp add: handle_message_def send_error_fails received_append
      received_handle_agent_register received_handle_agent_deregister
      received_handle_direct_message received_handle_broadcast received_handle_ping
      split: frame.splits option.splits)

lemmas request_defs = empty_request_def direct_request_def broadcast_request_def

lemmas handler_defs = handle_message_def handle_direct_message_def handle_broadcast_def
  handle_ping_def handle_agent_register_def handle_agent_deregister_def MessageType_of_def
  present_def is_rate_limited_def rate_window_def get_agent_websocket_def
  get_all_agent_names_def update_agent_ping_def
  send_error_fails send_message_fails broadcast_system_message_fails
  broadcast_fanout_counts_all failed_sends_def mk_BusMessage_def

lemmas run_defs = run_direct_def run_direct_unknown_def run_malformed_def run_pong_def
  run_ping_def run_direct_dead_def run_broadcast_def no_dead_def

text \<open>
  Claim C6. A DIRECT_MESSAGE from alice to bob, both registered on healthy channels, with
  all three fields non-empty and the rate limit not reached, should give bob exactly one
  \<open>direct_message\<close> envelope with the same content and correlation id, and alice
  exactly one \<open>ack\<close>. The handler does return success and makes both
  \<^verbatim>\<open>send_message\<close> calls with these envelopes, but each fails to encode: neither
  bob nor alice receives a frame.
\<close>

theorem direct_message_not_delivered:
  "fst run_direct
   \<and> received ws_bob (trace (snd run_direct)) = []
   \<and> received ws_alice (trace (snd run_direct)) = []
   \<and> trace (snd run_direct) =
        [SendFailed ws_bob
           (mk_BusMessage DIRECT_MESSAGE ''alice'' (Some ''bob'') (PDict [(''task'', PStr ''ping'')])
              (PStr ''c-1'') 5) TypeError,
         SendFailed ws_alice
           (mk_BusMessage ACK ''bus'' (Some ''alice'')
              (PDict [(''message'', PStr ''Message delivered to bob'')]) (PStr ''c-1'') 5)
           TypeError]"
  by (simp add: run_defs scenario_defs request_defs handler_defs)

text \<open>
  Claim C7. A DIRECT_MESSAGE to an agent that is not registered should give the sender
  exactly one \<open>error\<close> envelope and deliver nothing elsewhere. The handler refuses the
  message and builds the error envelope for the sender, but the envelope fails to encode:
  the sender receives no frame.
\<close>

theorem unknown_target_error_not_delivered:
  "\<not> fst run_direct_unknown
   \<and> received ws_alice (trace (snd run_direct_unknown)) = []
   \<and> trace (snd run_direct_unknown) =
        [SendFailed ws_alice
           (mk_BusMessage ERROR ''bus'' None (PDict [(''error'', PStr ''Agent zed not found'')])
              PNone 5) TypeError]"
  by (simp add: run_defs scenario_defs request_defs handler_defs)

text \<open>
  Claim C8. A frame that is no JSON, or whose type is unknown or one of the server-only
  types, should be answered by an \<open>error\<close> envelope from \<open>bus\<close>. For a malformed
  frame and for a frame of type \<open>pong\<close> the handler refuses the frame and builds the
  error envelope, but the envelope fails to encode: the sender receives no frame.
\<close>

theorem bad_frame_error_not_delivered:
  "\<not> fst run_malformed
   \<and> received ws_alice (trace (snd run_malformed)) = []
   \<and> trace (snd run_malformed) =
        [SendFailed ws_alice
           (mk_BusMessage ERROR ''bus'' None (PDict [(''error'', PStr ''Invalid message format'')])
              PNone 5) TypeError]
   \<and> \<not> fst run_pong
   \<and> received ws_alice (trace (snd run_pong)) = []
   \<and> trace (snd run_pong) =
        [SendFailed ws_alice
           (mk_BusMessage ERROR ''bus'' None
              (PDict [(''error'', PStr ''Unknown message type: MessageType.PONG'')]) PNone 5)
           TypeError]"
  by (simp add: run_defs scenario_defs request_defs handler_defs)

text \<open>
  Claim C9. A PING should always be answered by a \<open>pong\<close> envelope with a timestamp,
  leave the rate windows unchanged and update \<open>last_ping\<close> of a registered sender.
  The rate windows are unchanged and \<open>last_ping\<close> of alice is updated, but the
  \<open>pong\<close> envelope fails to encode: the sender receives no frame.
\<close>

theorem ping_pong_not_delivered:
  "fst run_ping
   \<and> received ws_alice (trace (snd run_ping)) = []
   \<and> trace (snd run_ping) =
        [SendFailed ws_alice
           (mk_BusMessage PONG ''bus'' (Some ''alice'') (PDict [(''timestamp'', PFloat 7)]) PNone 7)
           TypeError]
   \<and> message_rates (snd run_ping) = message_rates two_agents
   \<and> map (\<lambda>(n, i). (n, last_ping i)) (agents (snd run_ping)) = [(''alice'', 7), (''bob'', 0)]"
  by (simp add: run_defs scenario_defs request_defs handler_defs)

text \<open>
  Claim C10. \<^verbatim>\<open>send_message\<close> never raises to its caller, so a DIRECT_MESSAGE that
  passes validation, rate limiting and target lookup should give the sender the
  \<open>ack\<close> even when the forward to the target failed. With bob's channel closed the
  handler returns success, but the \<open>ack\<close> fails to encode as every envelope does: the
  sender receives no frame.
\<close>

theorem ack_not_delivered_when_forward_fails:
  "fst run_direct_dead
   \<and> received ws_alice (trace (snd run_direct_dead)) = []
   \<and> received ws_bob (trace (snd run_direct_dead)) = []"
  by (simp add: run_defs scenario_defs request_defs handler_defs)

lemma str_nat_3: "str_nat 3 = ''3''"
  by code_simp

lemma str_nat_Suc3: "str_nat (Suc (Suc (Suc 0))) = ''3''"
  using str_nat_3 by (simp only: numeral_3_eq_3)

text \<open>
  Claim C2. A BROADCAST from alice with three other registered agents, one of them
  (carol) on a broken channel, should reach the two healthy agents and be acknowledged with
  a count of 2. The acknowledgement the handler builds says 3, since \<^verbatim>\<open>send_message\<close>
  swallows every failure and the counter is incremented for every recipient; and no
  envelope encodes, so neither the healthy agents nor alice receive a frame.
\<close>

theorem broadcast_counts_broken_recipient:
  "fst run_broadcast
   \<and> received ws_bob (trace (snd run_broadcast)) = []
   \<and> received ws_dave (trace (snd run_broadcast)) = []
   \<and> received ws_alice (trace (snd run_broadcast)) = []
   \<and> last (trace (snd run_broadcast)) =
        SendFailed ws_alice
          (mk_BusMessage ACK ''bus'' (Some ''alice'')
             (PDict [(''message'', PStr ''Broadcast delivered to 3 agents'')]) PNone 5)
          TypeError"
  by (simp add: run_defs scenario_defs request_defs handler_defs str_nat_Suc3 del: str_nat.simps)

lemmas run2_defs = run_auth_failure_def run_close_def run_deregister_def run_reregister_def
  no_dead_def

text \<open>
  Claim C1. Every teardown, authentication failure among the causes, should run
  \<^verbatim>\<open>deregister_connection\<close>. With a token configured and a client that sends a wrong
  token, \<^verbatim>\<open>handle_connection\<close> replies \<open>auth_error\<close>, closes with code 1008 and
  returns before the \<^verbatim>\<open>try\<close>/\<^verbatim>\<open>finally\<close>: the connection id stays in
  \<open>connections\<close> and in the quota set of its source address.
\<close>

theorem auth_failure_skips_release:
  "fst run_auth_failure = Returned
   \<and> connections (snd run_auth_failure) (cid ws_alice) = Some ws_alice
   \<and> ip_connections (snd run_auth_failure) (remote_ip ws_alice) = Some {cid ws_alice}
   \<and> trace (snd run_auth_failure) =
        [Sent ws_alice (auth_reply ''auth_error'' ''Authentication failed''),
         Closed ws_alice 1008 ''Authentication failed'']"
  by (simp add: run2_defs scenario_defs handle_connection_def authenticate_connection_def
      ws_send_def close_def json_dumps_def)

text \<open>
  Claim C3. Closing a session with a registered agent should deregister the agent and
  emit \<open>agent_left\<close> to the remaining agents, as an explicit AGENT_DEREGISTER does.
  \<^verbatim>\<open>deregister_connection\<close> removes alice but makes no send at all, whereas the
  explicit request makes the \<^verbatim>\<open>send_message\<close> call with the \<open>agent_left\<close> system
  envelope for bob.
\<close>

theorem session_close_emits_no_agent_left:
  "map fst (agents run_close) = [''bob'']
   \<and> trace run_close = []
   \<and> fst run_deregister
   \<and> map fst (agents (snd run_deregister)) = [''bob'']
   \<and> trace (snd run_deregister) =
        [SendFailed ws_bob
           (mk_BusMessage SYSTEM ''bus'' None
              (PDict [(''event'', PStr ''agent_left''), (''agent_name'', PStr ''alice'')]) PNone 5)
           TypeError]"
  by (simp add: run2_defs scenario_defs request_defs handler_defs deregister_connection_def)

text \<open>
  Claim C5, as stated, fails: when the session that holds the name \<open>alice\<close> registers
  it again, lookup of \<open>alice\<close> resolves to that same, old session afterwards; and bob,
  the other registered agent, observes no \<open>agent_joined\<close> event.
\<close>

theorem reregistration_same_session_counterexample:
  "get_agent_websocket ''alice'' two_agents = Some ws_alice
   \<and> fst run_reregister
   \<and> get_agent_websocket ''alice'' (snd run_reregister) = Some ws_alice
   \<and> received ws_bob (trace (snd run_reregister)) = []"
  by (simp add: run2_defs scenario_defs request_defs handler_defs)

subsection \<open>The registry and the release path\<close>

lemma agents_deregister_agent:
  "agents (snd (deregister_agent a st)) = AList.delete a (agents st)"
  by (simp add: deregister_agent_def map_of_eq_None_iff)

lemma agents_register_agent:
  assumes "connections st c = Some ws"
  shows "agents (snd (register_agent c a caps md now st)) =
           AList.update a
             \<lparr>name = a, agent_websocket = ws, connected_at = now, last_ping = now,
              agent_capabilities = (if truthy caps then caps else PList []),
              agent_metadata = (if truthy md then md else PDict []), message_count = 0\<rparr>
             (AList.delete a (agents st))"
  using assms by (simp add: register_agent_def Let_def agents_deregister_agent map_of_eq_None_iff)

lemma names_distinct_deregister_agent:
  "names_distinct st \<Longrightarrow> names_distinct (snd (deregister_agent a st))"
  by (simp add: names_distinct_def agents_deregister_agent distinct_delete)

lemma names_distinct_register_agent:
  assumes "names_distinct st"
  shows "names_distinct (snd (register_agent c a caps md now st))"
proof (cases "connections st c")
  case None
  then show ?thesis using assms by (simp add: register_agent_def)
next
  case (Some ws)
  then show ?thesis
    using assms
    by (simp add: names_distinct_def agents_register_agent [OF Some] distinct_update
        distinct_delete)
qed

lemma names_distinct_update_agent_ping:
  "names_distinct st \<Longrightarrow> names_distinct (update_agent_ping a now st)"
  by (simp add: names_distinct_def update_agent_ping_def distinct_update split: option.splits)

lemma names_distinct_trace [simp]:
  "names_distinct (st\<lparr>trace := t\<rparr>) = names_distinct st"
  by (simp add: names_distinct_def)

lemma names_distinct_is_rate_limited [simp]:
  "names_distinct (snd (is_rate_limited cfg a now st)) = names_distinct st"
  by (simp add: names_distinct_def)

lemma names_distinct_handle_message:
  assumes "names_distinct st"
  shows "names_distinct (snd (handle_message cfg dead ws raw c now st))"
proof (cases raw)
  case Malformed
  then show ?thesis using assms by (simp add: handle_message_def send_error_fails)
next
  case NonObject
  then show ?thesis using assms by (simp add: handle_message_def send_error_fails)
next
  case (Object md)
  have reg: "names_distinct (snd (handle_agent_register dead ws md c now st))"
    using assms names_distinct_register_agent [OF assms]
    by (simp add: handle_agent_register_def Let_def case_prod_beta send_error_fails
        send_message_fails broadcast_system_message_fails)
  have dereg: "names_distinct (snd (handle_agent_deregister dead ws md now st))"
    using assms names_distinct_deregister_agent [OF assms]
    by (simp add: handle_agent_deregister_def Let_def case_prod_beta send_error_fails
        broadcast_system_message_fails)
  have dm: "names_distinct (snd (handle_direct_message cfg dead ws md now st))"
    using assms
    by (simp add: handle_direct_message_def Let_def case_prod_beta send_error_fails
        send_message_fails split: option.splits)
  have bc: "names_distinct (snd (handle_broadcast cfg dead ws md now st))"
    using assms
    by (simp add: handle_broadcast_def Let_def case_prod_beta send_error_fails
        send_message_fails broadcast_fanout_counts_all)
  have pg: "names_distinct (snd (handle_ping dead ws md now st))"
    using assms names_distinct_update_agent_ping [OF assms]
    by (simp add: handle_ping_def Let_def send_message_fails)
  show ?thesis
    using assms reg dereg dm bc pg
    by (simp add: Object handle_message_def send_error_fails split: option.splits)
qed

lemma agents_fold_deregister:
  "agents (fold (\<lambda>a s. snd (deregister_agent a s)) ns st) =
     filter (\<lambda>(n, i). n \<notin> set ns) (agents st)"
proof (induction ns arbitrary: st)
  case Nil
  then show ?case by simp
next
  case (Cons a ns)
  show ?case
    by (auto simp add: Cons.IH agents_deregister_agent AList.delete_eq case_prod_beta
        intro!: filter_cong)
qed

lemma other_fields_fold_deregister [simp]:
  "trace (fold (\<lambda>a s. snd (deregister_agent a s)) ns st) = trace st"
  "connections (fold (\<lambda>a s. snd (deregister_agent a s)) ns st) = connections st"
  "ip_connections (fold (\<lambda>a s. snd (deregister_agent a s)) ns st) = ip_connections st"
  by (induction ns arbitrary: st) (simp_all add: deregister_agent_def)

lemma agents_deregister_connection:
  "agents (deregister_connection c ws st) =
     filter (\<lambda>(n, i). n \<notin> fst ` {(n', i') \<in> set (agents st). agent_websocket i' = ws})
            (agents st)"
proof -
  have "set (map fst (filter (\<lambda>(agent_name, agent_info). agent_websocket agent_info = ws)
                              (agents st)))
        = fst ` {(n', i') \<in> set (agents st). agent_websocket i' = ws}"
    by auto
  then show ?thesis
    by (simp add: deregister_connection_def Let_def agents_fold_deregister
        split: option.splits)
qed

lemma trace_deregister_connection:
  "trace (deregister_connection c ws st) = trace st"
  by (simp add: deregister_connection_def Let_def split: option.splits)

lemma names_distinct_deregister_connection:
  "names_distinct st \<Longrightarrow> names_distinct (deregister_connection c ws st)"
  by (simp add: names_distinct_def agents_deregister_connection distinct_map_filter)

lemma release_removes_session_agents:
  "\<forall>(n, i) \<in> set (agents (deregister_connection c ws st)). agent_websocket i \<noteq> ws"
  by (force simp: agents_deregister_connection)

lemma release_clears_quota:
  "connections (deregister_connection c ws st) c = None"
  "c \<notin> (case ip_connections (deregister_connection c ws st) (remote_ip ws) of
            None \<Rightarrow> {} | Some ids \<Rightarrow> ids)"
  "ip_connections (deregister_connection c ws st) (remote_ip ws) \<noteq> Some {}"
  by (auto simp: deregister_connection_def Let_def split: option.splits)

lemma agents_deregister_connection_distinct:
  assumes "names_distinct st"
  shows "agents (deregister_connection c ws st) =
           filter (\<lambda>(n, i). agent_websocket i \<noteq> ws) (agents st)"
proof -
  have "(n \<notin> fst ` {(n', i') \<in> set (agents st). agent_websocket i' = ws})
          = (agent_websocket i \<noteq> ws)" if "(n, i) \<in> set (agents st)" for n i
  proof
    assume "n \<notin> fst ` {(n', i') \<in> set (agents st). agent_websocket i' = ws}"
    then show "agent_websocket i \<noteq> ws" using that by force
  next
    assume ne: "agent_websocket i \<noteq> ws"
    show "n \<notin> fst ` {(n', i') \<in> set (agents st). agent_websocket i' = ws}"
    proof
      assume "n \<in> fst ` {(n', i') \<in> set (agents st). agent_websocket i' = ws}"
      then obtain i' where i': "(n, i') \<in> set (agents st)" "agent_websocket i' = ws"
        by auto
      have "i = i'"
        using assms that i'(1) by (auto simp: names_distinct_def dest: eq_key_imp_eq_value)
      then show False using ne i'(2) by simp
    qed
  qed
  then show ?thesis
    unfolding agents_deregister_connection by (intro filter_cong) auto
qed

lemma names_distinct_receive_loop:
  "names_distinct st \<Longrightarrow> names_distinct (receive_loop cfg dead ws c frames st)"
  unfolding receive_loop_def
  by (induction frames arbitrary: st) (auto simp: names_distinct_handle_message)

lemma agents_register_connection [simp]:
  "agents (snd (register_connection cfg ws c st)) = agents st"
  by (simp add: register_connection_def Let_def)

lemma agents_authenticate_connection:
  "authenticate_connection cfg dead ws auth st = Inr (ok, st') \<Longrightarrow> agents st' = agents st"
  by (auto simp: authenticate_connection_def ws_send_def
      split: if_splits auth_input.splits auth_frame.splits)

lemma names_distinct_handle_connection:
  assumes "names_distinct st"
  shows "names_distinct (snd (handle_connection cfg dead ws now auth frames st))"
proof -
  let ?c = "(remote_ip ws, remote_port ws, now)"
  let ?st1 = "snd (register_connection cfg ws ?c st)"
  have d1: "names_distinct ?st1"
    using assms by (simp add: names_distinct_def)
  have d2: "names_distinct st'"
    if "authenticate_connection cfg dead ws auth ?st1 = Inr (ok, st')" for ok st'
    using agents_authenticate_connection [OF that] d1 by (simp add: names_distinct_def)
  show ?thesis
    using d1 d2
    by (auto simp: handle_connection_def Let_def case_prod_beta close_def
        names_distinct_deregister_connection names_distinct_receive_loop
        split: sum.splits)
qed

text \<open>
  Claim C5, amended. At every instant there is at most one AgentRecord per name: the names
  in the registry are distinct, and every request handler, the release path and a whole
  session of \<^verbatim>\<open>handle_connection\<close> keep them distinct. Registering a name from an
  admitted session succeeds, removes the record the name had and stores a fresh one for the
  registering session, so that afterwards lookup of the name resolves to the registering
  session (to the old session only if that same session registers the name again); the
  records of all other names are untouched.
\<close>

theorem registration_replaces_record:
  assumes "names_distinct st" and "connections st c = Some ws"
  shows "fst (register_agent c a caps md now st)
     \<and> names_distinct (snd (register_agent c a caps md now st))
     \<and> get_agent_websocket a (snd (register_agent c a caps md now st)) = Some ws
     \<and> map_of (agents (snd (register_agent c a caps md now st))) a =
         Some \<lparr>name = a, agent_websocket = ws, connected_at = now, last_ping = now,
               agent_capabilities = (if truthy caps then caps else PList []),
               agent_metadata = (if truthy md then md else PDict []), message_count = 0\<rparr>
     \<and> (\<forall>b. b \<noteq> a \<longrightarrow>
           map_of (agents (snd (register_agent c a caps md now st))) b = map_of (agents st) b)
     \<and> names_distinct (snd (handle_message cfg dead ws' raw c' now' st))
     \<and> names_distinct (deregister_connection c' ws' st)
     \<and> names_distinct (snd (handle_connection cfg dead ws' now' auth frames st))"
proof -
  have "fst (register_agent c a caps md now st)"
    using assms(2) by (simp add: register_agent_def Let_def)
  moreover have "names_distinct (snd (register_agent c a caps md now st))"
    using assms(1) by (rule names_distinct_register_agent)
  moreover have "map_of (agents (snd (register_agent c a caps md now st))) a =
         Some \<lparr>name = a, agent_websocket = ws, connected_at = now, last_ping = now,
               agent_capabilities = (if truthy caps then caps else PList []),
               agent_metadata = (if truthy md then md else PDict []), message_count = 0\<rparr>"
    by (simp add: agents_register_agent [OF assms(2)] update_conv')
  moreover from this
  have "get_agent_websocket a (snd (register_agent c a caps md now st)) = Some ws"
    by (simp add: get_agent_websocket_def)
  moreover have "\<forall>b. b \<noteq> a \<longrightarrow>
           map_of (agents (snd (register_agent c a caps md now st))) b = map_of (agents st) b"
    by (simp add: agents_register_agent [OF assms(2)] update_conv' delete_conv')
  moreover have "names_distinct (snd (handle_message cfg dead ws' raw c' now' st))"
    using assms(1) by (rule names_distinct_handle_message)
  moreover have "names_distinct (deregister_connection c' ws' st)"
    using assms(1) by (rule names_distinct_deregister_connection)
  moreover have "names_distinct (snd (handle_connection cfg dead ws' now' auth frames st))"
    using assms(1) by (rule names_distinct_handle_connection)
  ultimately show ?thesis by blast
qed

theorem registration_replaces_record_witness:
  "names_distinct two_agents
   \<and> connections two_agents (cid ws_bob) = Some ws_bob
   \<and> get_agent_websocket ''alice'' two_agents = Some ws_alice
   \<and> fst (register_agent (cid ws_bob) ''alice'' (PList []) (PDict []) 9 two_agents)
   \<and> get_agent_websocket ''alice''
        (snd (register_agent (cid ws_bob) ''alice'' (PList []) (PDict []) 9 two_agents))
       = Some ws_bob
   \<and> names_distinct
        (snd (register_agent (cid ws_bob) ''alice'' (PList []) (PDict []) 9 two_agents))"
proof -
  have d: "names_distinct two_agents"
    by (simp add: names_distinct_def scenario_defs)
  have c: "connections two_agents (cid ws_bob) = Some ws_bob"
    by (simp add: scenario_defs)
  have l: "get_agent_websocket ''alice'' two_agents = Some ws_alice"
    by (simp add: scenario_defs get_agent_websocket_def)
  show ?thesis
    using registration_replaces_record [OF d c, of "''alice''" "PList []" "PDict []" 9] d c l
    by blast
qed

subsection \<open>What the handlers do apart from sending\<close>

text \<open>
  A send refused by the limiter is answered by \<^verbatim>\<open>send_error\<close> with the text
  "Rate limit exceeded" and nothing is forwarded; PING never touches a rate window and
  updates \<open>last_ping\<close> only of a sender that is named and registered; a frame that is
  no request is refused with \<^verbatim>\<open>send_error\<close> and changes nothing else; a session that
  enters the receive loop ends in \<^verbatim>\<open>deregister_connection\<close>; and a session whose
  authentication failed keeps its quota slot, so that with a cap of one connection the next
  client of that address is refused although its token is right.
\<close>

lemma rate_limited_send_refused:
  assumes "present (md_from_agent md)" and "truthy (md_content md)"
    and "fst (is_rate_limited cfg (the (md_from_agent md)) now st)"
  shows "handle_broadcast cfg dead ws md now st =
           (False, send_error dead ws ''Rate limit exceeded'' now
                     (snd (is_rate_limited cfg (the (md_from_agent md)) now st)))"
    and "present (md_to_agent md) \<Longrightarrow>
         handle_direct_message cfg dead ws md now st =
           (False, send_error dead ws ''Rate limit exceeded'' now
                     (snd (is_rate_limited cfg (the (md_from_agent md)) now st)))"
  using assms
  by (simp_all add: handle_broadcast_def handle_direct_message_def Let_def case_prod_beta)

lemma handle_ping_rate_exempt:
  "message_rates (snd (handle_ping dead ws md now st)) = message_rates st"
  by (simp add: handle_ping_def Let_def send_message_fails update_agent_ping_def
      split: option.splits)

lemma handle_ping_touches_registered_sender_only:
  "agents (snd (handle_ping dead ws md now st)) =
     (case md_from_agent md of
        None \<Rightarrow> agents st
      | Some a \<Rightarrow>
          (case map_of (agents st) a of
             None \<Rightarrow> agents st
           | Some i \<Rightarrow> if a = [] then agents st
                       else AList.update a (i\<lparr>last_ping := now\<rparr>) (agents st)))"
  by (simp add: handle_ping_def Let_def send_message_fails update_agent_ping_def present_def
      split: option.splits)

lemma bad_frame_refused:
  assumes "raw = Malformed \<or> raw = NonObject
           \<or> (\<exists>md. raw = Object md
                 \<and> MessageType_of (case md_type md of None \<Rightarrow> ''unknown'' | Some t \<Rightarrow> t)
                     \<notin> Some ` {AGENT_REGISTER, AGENT_DEREGISTER, DIRECT_MESSAGE, BROADCAST, PING})"
  shows "\<not> fst (handle_message cfg dead ws raw c now st)
       \<and> (\<exists>txt. snd (handle_message cfg dead ws raw c now st) = send_error dead ws txt now st)"
  using assms
  by (auto simp: handle_message_def split: option.splits)

lemma handle_connection_releases:
  assumes "API_TOKEN cfg = []"
    and "fst (register_connection cfg ws (remote_ip ws, remote_port ws, now) st)"
  shows "handle_connection cfg dead ws now auth frames st =
           (Returned,
            deregister_connection (remote_ip ws, remote_port ws, now) ws
              (receive_loop cfg dead ws (remote_ip ws, remote_port ws, now) frames
                 (snd (register_connection cfg ws (remote_ip ws, remote_port ws, now) st))))"
  using assms by (simp add: handle_connection_def Let_def case_prod_beta)

lemma auth_failure_locks_out_address:
  "fst run_lockout = Returned
   \<and> last (trace (snd run_lockout)) =
       Closed (WebSocket 5 ''10.0.0.1'' 40005) 1008 ''Connection limit exceeded''"
  by (simp add: run_lockout_def strict_config_def no_dead_def scenario_defs
      handle_connection_def authenticate_connection_def ws_send_def close_def)

subsection \<open>The rate limit at the handlers\<close>

lemma handle_message_direct_request:
  "handle_message cfg dead ws (Object (direct_request frm to)) c now st =
     handle_direct_message cfg dead ws (direct_request frm to) now st"
  by (simp add: handle_message_def direct_request_def empty_request_def MessageType_of_def)

lemma direct_request_fields [simp]:
  "md_from_agent (direct_request frm to) = Some frm"
  "md_to_agent (direct_request frm to) = Some to"
  "truthy (md_content (direct_request frm to))"
  by (simp_all add: direct_request_def empty_request_def)

lemma handle_direct_message_limiter:
  assumes "frm \<noteq> []" "to \<noteq> []"
  shows "message_rates (snd (handle_direct_message cfg dead ws (direct_request frm to) now st))
           = message_rates (snd (is_rate_limited cfg frm now st))"
    and "agents (snd (handle_direct_message cfg dead ws (direct_request frm to) now st))
           = agents st"
    and "fst (handle_direct_message cfg dead ws (direct_request frm to) now st)
           = (\<not> fst (is_rate_limited cfg frm now st) \<and> get_agent_websocket to st \<noteq> None)"
  using assms
  by (auto simp add: handle_direct_message_def Let_def case_prod_beta present_def
      send_error_fails send_message_fails get_agent_websocket_def split: option.splits)

lemma is_rate_limited_cong:
  assumes "message_rates st = message_rates st'"
  shows "fst (is_rate_limited cfg a now st) = fst (is_rate_limited cfg a now st')"
    and "message_rates (snd (is_rate_limited cfg a now st))
           = message_rates (snd (is_rate_limited cfg a now st'))"
  using assms by (simp_all add: is_rate_limited_def rate_window_def Let_def)

lemma alice_sends_rates:
  "message_rates st = message_rates st' \<Longrightarrow>
   message_rates (alice_sends ts st)
     = message_rates (snd (rate_checks default_config ''alice'' ts st'))"
proof (induction ts arbitrary: st st')
  case Nil
  then show ?case by (simp add: alice_sends_def)
next
  case (Cons t ts)
  let ?s = "snd (handle_message default_config no_dead ws_alice
                   (Object (direct_request ''alice'' ''bob'')) (cid ws_alice) t st)"
  let ?s' = "snd (is_rate_limited default_config ''alice'' t st')"
  have "message_rates ?s = message_rates ?s'"
    using is_rate_limited_cong(2) [OF Cons.prems]
    by (simp add: handle_message_direct_request handle_direct_message_limiter(1))
  then have "message_rates (alice_sends ts ?s)
               = message_rates (snd (rate_checks default_config ''alice'' ts ?s'))"
    by (rule Cons.IH)
  then show ?case
    by (simp add: alice_sends_def rate_checks_Cons del: rate_checks.simps(2))
qed

lemma alice_sends_agents: "agents (alice_sends ts st) = agents st"
  unfolding alice_sends_def
  by (induction ts arbitrary: st)
     (simp_all add: handle_message_direct_request handle_direct_message_limiter(2))

lemma alice_sends_received: "received w (trace (alice_sends ts st)) = received w (trace st)"
  unfolding alice_sends_def
  by (induction ts arbitrary: st) (simp_all add: received_handle_message)

lemma rate_window_cong:
  "message_rates st = message_rates st' \<Longrightarrow> rate_window st a = rate_window st' a"
  by (simp add: rate_window_def)

lemma sixty_sends_fill_window:
  "fst (is_rate_limited default_config ''alice'' 59 (alice_sends (map real [0..<60]) two_agents))"
  "rate_window (snd (is_rate_limited default_config ''alice'' 59
                       (alice_sends (map real [0..<60]) two_agents))) ''alice''
     = map real [0..<60]"
proof -
  let ?ts = "map real [0..<60]"
  let ?r = "snd (rate_checks default_config ''alice'' ?ts two_agents)"
  have en: "ENABLE_RATE_LIMITING default_config" by (simp add: default_config_def)
  have T: "MAX_MESSAGES_PER_MINUTE default_config = int 60" by (simp add: default_config_def)
  have fresh: "message_rates two_agents ''alice'' = None" by (simp add: scenario_defs)
  have len: "length ?ts = 60" by simp
  have win: "\<forall>t \<in> set ?ts. 59 - 60 < t \<and> t \<le> 59" by auto
  have lim: "is_rate_limited default_config ''alice'' 59 ?r =
               (True, ?r\<lparr>message_rates := (message_rates ?r)(''alice'' \<mapsto> ?ts)\<rparr>)"
    by (rule rate_checks_window_full(3) [OF en T fresh len win])
  have mr: "message_rates (alice_sends ?ts two_agents) = message_rates ?r"
    by (rule alice_sends_rates) simp
  show "fst (is_rate_limited default_config ''alice'' 59 (alice_sends ?ts two_agents))"
    using is_rate_limited_cong(1) [OF mr] lim by simp
  have "message_rates (snd (is_rate_limited default_config ''alice'' 59
                              (alice_sends ?ts two_agents)))
          = (message_rates ?r)(''alice'' \<mapsto> ?ts)"
    using is_rate_limited_cong(2) [OF mr] lim by simp
  then show "rate_window (snd (is_rate_limited default_config ''alice'' 59
                       (alice_sends ?ts two_agents))) ''alice'' = ?ts"
    by (simp add: rate_window_def)
qed

text \<open>
  Claim C4. Every rate-limit check prunes the window to the trailing 60 seconds, allows and
  records the send below the threshold and refuses it without recording otherwise; so with
  the default threshold the 61st send within one window should be rejected with a rate-limit
  error, and the next send after the window has rolled should succeed. The limiter does
  all of this: alice's 61st direct message is refused, her window keeps the 60 earlier
  stamps, and her message at second 120 passes the limiter with the window pruned to that
  one stamp. But the error envelope "Rate limit exceeded" fails to encode in
  \<^verbatim>\<open>send_message\<close> and is swallowed: alice receives no rate-limit error, and the
  message that passes reaches nobody.
\<close>

theorem sixty_first_send_error_not_delivered:
  "\<not> fst run_sixty_first
   \<and> received ws_alice (trace (snd run_sixty_first)) = []
   \<and> last (trace (snd run_sixty_first)) =
       SendFailed ws_alice
         (mk_BusMessage ERROR ''bus'' None (PDict [(''error'', PStr ''Rate limit exceeded'')])
            PNone 59) TypeError
   \<and> rate_window (snd run_sixty_first) ''alice'' = map real [0..<60]
   \<and> fst run_after_window
   \<and> rate_window (snd run_after_window) ''alice'' = [120]
   \<and> received ws_bob (trace (snd run_after_window)) = []"
proof -
  let ?ts = "map real [0..<60]"
  let ?st60 = "alice_sends ?ts two_agents"
  let ?md = "direct_request ''alice'' ''bob''"
  let ?lim = "is_rate_limited default_config ''alice'' 59 ?st60"
  have r61: "run_sixty_first = handle_direct_message default_config no_dead ws_alice ?md 59 ?st60"
    by (simp add: run_sixty_first_def handle_message_direct_request)
  have refused: "run_sixty_first =
      (False, send_error no_dead ws_alice ''Rate limit exceeded'' 59 (snd ?lim))"
    unfolding r61
    using rate_limited_send_refused(2) [of ?md default_config 59 ?st60 no_dead ws_alice]
      sixty_sends_fill_window(1)
    by (simp add: present_def)
  have a: "\<not> fst run_sixty_first" by (simp add: refused)
  have tr0: "trace two_agents = []" by (simp add: scenario_defs)
  have b: "received ws_alice (trace (snd run_sixty_first)) = []"
    by (simp add: r61 received_handle_direct_message alice_sends_received tr0)
  have c: "last (trace (snd run_sixty_first)) =
       SendFailed ws_alice
         (mk_BusMessage ERROR ''bus'' None (PDict [(''error'', PStr ''Rate limit exceeded'')])
            PNone 59) TypeError"
    by (simp add: refused send_error_fails)
  have mr61: "message_rates (snd run_sixty_first) = message_rates (snd ?lim)"
    by (simp add: refused send_error_fails)
  have d: "rate_window (snd run_sixty_first) ''alice'' = ?ts"
    using sixty_sends_fill_window(2) rate_window_cong [OF mr61] by simp
  let ?st61 = "snd run_sixty_first"
  have en: "ENABLE_RATE_LIMITING default_config" by (simp add: default_config_def)
  have T: "MAX_MESSAGES_PER_MINUTE default_config = 60" by (simp add: default_config_def)
  have drop: "filter (\<lambda>t. 120 - 60 < t) ?ts = []"
    by (auto simp: filter_empty_conv)
  have step: "is_rate_limited default_config ''alice'' 120 ?st61 =
      (False, ?st61\<lparr>message_rates := (message_rates ?st61)(''alice'' \<mapsto> [120])\<rparr>)"
    by (simp add: is_rate_limited_step [OF en] d drop T)
  have ag: "agents ?st61 = agents two_agents"
    by (simp add: r61 handle_direct_message_limiter(2) alice_sends_agents)
  have bob: "get_agent_websocket ''bob'' ?st61 = Some ws_bob"
    by (simp add: get_agent_websocket_def ag) (simp add: scenario_defs)
  have r62: "run_after_window = handle_direct_message default_config no_dead ws_alice ?md 120 ?st61"
    by (simp add: run_after_window_def handle_message_direct_request)
  have e: "fst run_after_window"
    by (simp add: r62 handle_direct_message_limiter(3) step bob)
  have "message_rates (snd run_after_window) = (message_rates ?st61)(''alice'' \<mapsto> [120])"
    by (simp add: r62 handle_direct_message_limiter(1) step)
  then have f: "rate_window (snd run_after_window) ''alice'' = [120]"
    by (simp add: rate_window_def)
  have g: "received ws_bob (trace (snd run_after_window)) = []"
    by (simp add: r62 r61 received_handle_direct_message alice_sends_received tr0)
  show ?thesis using a b c d e f g by blast
qed

end
